theory Spec2Isabelle
  imports Main
begin

section \<open>The OpenFlow SDK client (src/index.js)\<close>

text \<open>
  The class \<open>OpenFlow\<close> submits a workflow execution with one HTTP POST and then polls a
  status endpoint until the execution is terminal. The embedding follows the source
  method by method. Everything the class does to the outside world is a call of
  \<open>fetch\<close> (or of the payment wrapper \<open>x402Fetch\<close>) or a timer sleep; each of them is
  appended to a log of events that the methods pass along, and the replies come from an
  environment that may look at the whole log so far.
\<close>

subsection \<open>Values\<close>

text \<open>
  JSON values, for the fields typed \<open>any\<close> (\<open>input\<close>, \<open>output\<close>) and for the object
  handed to \<open>JSON.stringify\<close> as request body. The body is kept as that value.
\<close>

datatype json =
    JNull
  | JBool bool
  | JNum int
  | JStr string
  | JArr "json list"
  | JObj "(string \<times> json) list"

text \<open>
  JavaScript truthiness of an optional string (\<open>None\<close> is \<open>undefined\<close> or \<open>null\<close>): only
  a non-empty string is truthy. \<open>a || b\<close> on such a value keeps \<open>a\<close> when truthy.
\<close>

fun truthy :: "string option \<Rightarrow> bool" where
  "truthy None = False"
| "truthy (Some s) = (s \<noteq> [])"

fun or_else :: "string option \<Rightarrow> string \<Rightarrow> string" where
  "or_else None d = d"
| "or_else (Some s) d = (if s = [] then d else s)"

text \<open>
  Numbers are integers here (the declaration file types the options as \<open>number\<close>, the
  spec as integer). A template literal prints an integer in decimal.
\<close>

definition digit_char :: "nat \<Rightarrow> char" where
  "digit_char d = ''0123456789'' ! d"

fun show_nat :: "nat \<Rightarrow> string" where
  "show_nat n = (if n < 10 then [digit_char n] else show_nat (n div 10) @ [digit_char (n mod 10)])"

declare show_nat.simps [simp del]

definition show_int :: "int \<Rightarrow> string" where
  "show_int i = (if i < 0 then CHR ''-'' # show_nat (nat (- i)) else show_nat (nat i))"

subsection \<open>Errors\<close>

text \<open>
  Every error the class raises itself is \<open>new Error(message)\<close>. An error of a
  collaborator (a rejection of \<open>fetch\<close> or of \<open>response.json()\<close>, an exception of the
  key library in the constructor) is not caught anywhere and reaches the caller as it is.
\<close>

datatype error =
    Error string
  | Rejection string

subsection \<open>Requests, responses and the environment\<close>

datatype transport = Fetch | X402Fetch

text \<open>
  The arguments of one call of \<open>fetch\<close> or \<open>x402Fetch\<close>: the URL and, of the options
  object, \<open>method\<close> (the field \<open>http_method\<close>), \<open>headers\<close> and \<open>body\<close>. A header value
  is what the source puts in the headers object (\<open>None\<close> when that is \<open>undefined\<close>).
\<close>

record request =
  via :: transport
  url :: string
  http_method :: string
  headers :: "(string \<times> string option) list"
  body :: "json option"

datatype event = Call request | Sleep int

text \<open>
  The parsed payload of a response: \<open>{success: false, error}\<close>, or a success payload
  with the fields the caller reads.
\<close>

datatype 'a payload = Failure "string option" | Success 'a

text \<open>
  What the source reads of a response: \<open>response.ok\<close>, \<open>response.status\<close>,
  \<open>response.text()\<close> and \<open>response.json()\<close> (\<open>Inl\<close> when parsing rejects).
\<close>

record 'a response =
  ok :: bool
  status :: int
  text_of :: string
  json_of :: "string + 'a payload"

datatype 'a outcome = Rejects string | Resolves "'a response"

text \<open>
  The records of the declaration file (index.d.ts); fields marked optional there are
  options. Payloads are taken at these types: a success payload has every field the
  declaration requires.
\<close>

record state_data =
  data_status :: string
  data_workflowId :: string
  data_executionId :: string
  data_input :: json
  data_output :: "json option"
  data_startTime :: "string option"
  data_completedTime :: "string option"
  data_error :: "string option"

record workflow_state =
  state_executionId :: string
  state_workflowId :: string
  state_ipfsCid :: string
  state_status :: string
  state_data :: state_data

record execution =
  exec_executionId :: string
  exec_workflowId :: string
  exec_ipfsCid :: string
  exec_pieceCid :: string
  exec_provider :: string
  exec_status :: string

record workflow_result =
  result_executionId :: string
  result_workflowId :: string
  result_status :: string
  result_output :: "json option"
  result_ipfsCid :: string
  result_pieceCid :: string
  result_provider :: string
  result_completedTime :: "string option"

text \<open>
  The environment (network and server): the reply to a call, given the events so far.
  Submissions and status queries are answered with their own payload types.
\<close>

record env =
  submit_reply :: "event list \<Rightarrow> request \<Rightarrow> execution outcome"
  query_reply :: "event list \<Rightarrow> request \<Rightarrow> workflow_state outcome"

subsection \<open>The client\<close>

record options =
  opt_privateKey :: "string option"
  opt_baseUrl :: "string option"
  opt_pollInterval :: "int option"
  opt_maxPollAttempts :: "int option"

record client =
  privateKey :: "string option"
  baseUrl :: string
  pollInterval :: int
  maxPollAttempts :: int
  x402Fetch :: bool

text \<open>\<open>options.n || d\<close> for an optional number: \<open>undefined\<close> and \<open>0\<close> are falsy.\<close>

fun num_or :: "int option \<Rightarrow> int \<Rightarrow> int" where
  "num_or None d = d"
| "num_or (Some n) d = (if n = 0 then d else n)"

text \<open>
  The account that the key library (viem) derives from a private key; the class hands it
  on to the wallet client and never looks into it.
\<close>

datatype account = Account string

text \<open>
  The constructor. It sets the four fields and then, for a truthy key only, calls
  \<open>privateKeyToAccount\<close> of the key library, which throws on a key that is not well
  formed: then the exception leaves the constructor and there is no client. The library
  function is not part of this repository and is a parameter here (\<open>Inl\<close> is the message
  of the exception it throws). The class later only tests whether the wrapper
  \<open>x402Fetch\<close> is there, which is the field \<open>x402Fetch\<close>.
\<close>

definition constructor :: "(string \<Rightarrow> string + account) \<Rightarrow> options \<Rightarrow> error + client" where
  "constructor privateKeyToAccount opts =
     (let pk = (if truthy (opt_privateKey opts) then opt_privateKey opts else None);
          this = \<lparr> privateKey = pk,
                   baseUrl = or_else (opt_baseUrl opts) ''https://workflow-api.openflow.sh'',
                   pollInterval = num_or (opt_pollInterval opts) 2000,
                   maxPollAttempts = num_or (opt_maxPollAttempts opts) 150,
                   x402Fetch = False \<rparr>
      in case pk of
           None \<Rightarrow> Inr this
         | Some key \<Rightarrow>
             (case privateKeyToAccount key of
                Inl thrown \<Rightarrow> Inl (Rejection thrown)
              | Inr account \<Rightarrow> Inr (this\<lparr> x402Fetch := True \<rparr>)))"

subsection \<open>Submission\<close>

text \<open>
  The request that \<open>_executeWorkflow\<close> builds: through \<open>x402Fetch\<close> when the wrapper is
  there, else through \<open>fetch\<close> with the caller's \<open>X-Payment\<close> header.
\<close>

definition submission_request :: "client \<Rightarrow> string \<Rightarrow> json \<Rightarrow> string option \<Rightarrow> bool \<Rightarrow> request" where
  "submission_request c slug input xPayment testMode =
     (let endpoint = (if testMode then ''/test-workflow'' else ''/workflow/:slug'');
          u = baseUrl c @ endpoint;
          b = JObj [(''slug'', JStr slug), (''input'', input)]
      in if x402Fetch c
         then \<lparr> via = X402Fetch, url = u, http_method = ''POST'',
                headers = [(''Content-Type'', Some ''application/json'')],
                body = Some b \<rparr>
         else \<lparr> via = Fetch, url = u, http_method = ''POST'',
                headers = [(''Content-Type'', Some ''application/json''),
                           (''X-Payment'', xPayment)],
                body = Some b \<rparr>)"

definition executeWorkflow ::
  "client \<Rightarrow> env \<Rightarrow> event list \<Rightarrow> string \<Rightarrow> json \<Rightarrow> string option \<Rightarrow> bool
     \<Rightarrow> (error + execution) \<times> event list" where
  "executeWorkflow c e log slug input xPayment testMode =
     (let req = submission_request c slug input xPayment testMode;
          log' = log @ [Call req]
      in case submit_reply e log req of
           Rejects r \<Rightarrow> (Inl (Rejection r), log')
         | Resolves response \<Rightarrow>
             if \<not> ok response then
               (Inl (Error (''Workflow execution failed: '' @ show_int (status response)
                            @ '' - '' @ text_of response)), log')
             else (case json_of response of
                 Inl r \<Rightarrow> (Inl (Rejection r), log')
               | Inr (Failure err) \<Rightarrow>
                   (Inl (Error (''Workflow execution failed: '' @ or_else err ''Unknown error'')), log')
               | Inr (Success d) \<Rightarrow>
                   (Inr \<lparr> exec_executionId = exec_executionId d,
                          exec_workflowId = exec_workflowId d,
                          exec_ipfsCid = exec_ipfsCid d,
                          exec_pieceCid = exec_pieceCid d,
                          exec_provider = exec_provider d,
                          exec_status = exec_status d \<rparr>, log')))"

subsection \<open>Status query\<close>

definition state_request :: "client \<Rightarrow> string \<Rightarrow> request" where
  "state_request c executionId =
     \<lparr> via = Fetch, url = baseUrl c @ ''/workflow-state/'' @ executionId, http_method = ''GET'',
       headers = [(''Content-Type'', Some ''application/json'')], body = None \<rparr>"

definition getWorkflowState ::
  "client \<Rightarrow> env \<Rightarrow> event list \<Rightarrow> string \<Rightarrow> (error + workflow_state) \<times> event list" where
  "getWorkflowState c e log executionId =
     (let req = state_request c executionId;
          log' = log @ [Call req]
      in case query_reply e log req of
           Rejects r \<Rightarrow> (Inl (Rejection r), log')
         | Resolves response \<Rightarrow>
             if \<not> ok response then
               (Inl (Error (''Failed to get workflow state: '' @ show_int (status response)
                            @ '' - '' @ text_of response)), log')
             else (case json_of response of
                 Inl r \<Rightarrow> (Inl (Rejection r), log')
               | Inr (Failure err) \<Rightarrow>
                   (Inl (Error (''Failed to get workflow state: '' @ or_else err ''Unknown error'')), log')
               | Inr (Success d) \<Rightarrow>
                   (Inr \<lparr> state_executionId = state_executionId d,
                          state_workflowId = state_workflowId d,
                          state_ipfsCid = state_ipfsCid d,
                          state_status = state_status d,
                          state_data = state_data d \<rparr>, log')))"

definition getState ::
  "client \<Rightarrow> env \<Rightarrow> event list \<Rightarrow> string \<Rightarrow> (error + workflow_state) \<times> event list" where
  "getState c e log executionId = getWorkflowState c e log executionId"

subsection \<open>Polling\<close>

text \<open>
  The \<open>while\<close> loop of \<open>_pollForCompletion\<close>, from the value of \<open>attempts\<close> at the loop
  test. The sleep after a non-terminal status is an event of the log.
\<close>

function pollLoop ::
  "client \<Rightarrow> env \<Rightarrow> string \<Rightarrow> int \<Rightarrow> event list \<Rightarrow> (error + workflow_state) \<times> event list" where
  "pollLoop c e executionId attempts log =
     (if attempts < maxPollAttempts c then
        (case getWorkflowState c e log executionId of
           (Inl err, log') \<Rightarrow> (Inl err, log')
         | (Inr state, log') \<Rightarrow>
             if state_status state = ''completed'' then (Inr state, log')
             else if state_status state = ''failed'' then
               (Inl (Error (''Workflow execution failed: ''
                            @ or_else (data_error (state_data state)) ''Unknown error'')), log')
             else pollLoop c e executionId (attempts + 1) (log' @ [Sleep (pollInterval c)]))
      else
        (Inl (Error (''Workflow execution timeout after '' @ show_int (maxPollAttempts c)
                     @ '' attempts'')), log))"
  by pat_completeness auto
termination
  by (relation "measure (\<lambda>(c, e, executionId, attempts, log). nat (maxPollAttempts c - attempts))") auto

declare pollLoop.simps [simp del]

definition pollForCompletion ::
  "client \<Rightarrow> env \<Rightarrow> event list \<Rightarrow> string \<Rightarrow> (error + workflow_state) \<times> event list" where
  "pollForCompletion c e log executionId = pollLoop c e executionId 0 log"

subsection \<open>run\<close>

record config =
  cfg_input :: "json option"
  cfg_xPayment :: "string option"
  cfg_testMode :: "bool option"

text \<open>The defaults of the destructuring \<open>{ input = {}, xPayment, testMode = true } = config\<close>.\<close>

definition input_of :: "config \<Rightarrow> json" where
  "input_of cfg = (case cfg_input cfg of None \<Rightarrow> JObj [] | Some v \<Rightarrow> v)"

definition testMode_of :: "config \<Rightarrow> bool" where
  "testMode_of cfg = (case cfg_testMode cfg of None \<Rightarrow> True | Some t \<Rightarrow> t)"

definition run ::
  "client \<Rightarrow> env \<Rightarrow> event list \<Rightarrow> string \<Rightarrow> config \<Rightarrow> (error + workflow_result) \<times> event list" where
  "run c e log slug cfg =
     (let input = input_of cfg;
          xPayment = cfg_xPayment cfg;
          testMode = testMode_of cfg
      in if \<not> truthy (privateKey c) \<and> \<not> truthy xPayment then
           (Inl (Error ''Either privateKey must be provided in OpenFlow constructor or xPayment header must be provided in config''), log)
         else
           (case executeWorkflow c e log slug input xPayment testMode of
              (Inl err, log1) \<Rightarrow> (Inl err, log1)
            | (Inr execution, log1) \<Rightarrow>
                (case pollForCompletion c e log1 (exec_executionId execution) of
                   (Inl err, log2) \<Rightarrow> (Inl err, log2)
                 | (Inr result, log2) \<Rightarrow>
                     (Inr \<lparr> result_executionId = exec_executionId execution,
                            result_workflowId = exec_workflowId execution,
                            result_status = state_status result,
                            result_output = data_output (state_data result),
                            result_ipfsCid = state_ipfsCid result,
                            result_pieceCid = exec_pieceCid execution,
                            result_provider = exec_provider execution,
                            result_completedTime = data_completedTime (state_data result) \<rparr>,
                      log2))))"

subsection \<open>Vocabulary of the specification\<close>

text \<open>
  The specification names four kinds of error. In the source each is an \<open>Error\<close> with a
  message of a fixed shape: the configuration error of \<open>run\<close>, the transport error for a
  response that is not ok (status code and body text after a prefix), the execution
  error for a failure payload or a failed workflow (the server's message, or
  \<open>Unknown error\<close>, after a prefix), and the timeout of the poll loop.
\<close>

definition ConfigurationError :: error where
  "ConfigurationError =
     Error ''Either privateKey must be provided in OpenFlow constructor or xPayment header must be provided in config''"

definition TransportError :: "string \<Rightarrow> int \<Rightarrow> string \<Rightarrow> error" where
  "TransportError prefix code txt = Error (prefix @ show_int code @ '' - '' @ txt)"

definition ExecutionError :: "string \<Rightarrow> string option \<Rightarrow> error" where
  "ExecutionError prefix msg = Error (prefix @ or_else msg ''Unknown error'')"

definition TimeoutError :: "int \<Rightarrow> error" where
  "TimeoutError n = Error (''Workflow execution timeout after '' @ show_int n @ '' attempts'')"

text \<open>The calls of a log, in order (sleeps left out).\<close>

definition calls :: "event list \<Rightarrow> request list" where
  "calls log = concat (map (\<lambda>ev. case ev of Call r \<Rightarrow> [r] | Sleep _ \<Rightarrow> []) log)"

text \<open>
  What \<open>n\<close> non-terminal attempts of the poll loop add to the log: a status query and a
  sleep each.
\<close>

definition rounds :: "client \<Rightarrow> string \<Rightarrow> nat \<Rightarrow> event list" where
  "rounds c executionId n =
     concat (replicate n [Call (state_request c executionId), Sleep (pollInterval c)])"

text \<open>
  The polled sequence of a loop started at \<open>log\<close>: \<open>polled c e executionId log j\<close> is
  the reply to attempt \<open>j + 1\<close>, which the loop makes after \<open>j\<close> non-terminal attempts.
\<close>

definition polled :: "client \<Rightarrow> env \<Rightarrow> string \<Rightarrow> event list \<Rightarrow> nat \<Rightarrow> workflow_state outcome" where
  "polled c e executionId log j =
     query_reply e (log @ rounds c executionId j) (state_request c executionId)"

text \<open>The workflow state a reply carries, when the query succeeds.\<close>

fun polled_state :: "workflow_state outcome \<Rightarrow> workflow_state option" where
  "polled_state (Rejects r) = None"
| "polled_state (Resolves response) =
     (if ok response then
        (case json_of response of Inr (Success d) \<Rightarrow> Some d | _ \<Rightarrow> None)
      else None)"

text \<open>A reply with a status that is neither \<open>completed\<close> nor \<open>failed\<close>.\<close>

definition pending :: "workflow_state outcome \<Rightarrow> bool" where
  "pending reply =
     (case polled_state reply of
        None \<Rightarrow> False
      | Some d \<Rightarrow> state_status d \<noteq> ''completed'' \<and> state_status d \<noteq> ''failed'')"

subsection \<open>A scripted server\<close>

text \<open>
  An environment for concrete runs: every submission gets the same reply, and the
  \<open>n\<close>-th status query gets the \<open>n\<close>-th reply of a script (the connection is refused
  once the script is used up).
\<close>

definition scripted :: "execution outcome \<Rightarrow> workflow_state outcome list \<Rightarrow> env" where
  "scripted ack replies =
     \<lparr> submit_reply = (\<lambda>log req. ack),
       query_reply = (\<lambda>log req.
          let n = length (filter (\<lambda>r. http_method r = ''GET'') (calls log))
          in if n < length replies then replies ! n else Rejects ''connection refused'') \<rparr>"

definition demo_handle :: execution where
  "demo_handle =
     \<lparr> exec_executionId = ''e1'', exec_workflowId = ''w1'', exec_ipfsCid = ''cid0'',
       exec_pieceCid = ''piece1'', exec_provider = ''provider1'', exec_status = ''processing'' \<rparr>"

definition demo_ack :: "execution outcome" where
  "demo_ack = Resolves \<lparr> ok = True, status = 200, text_of = [], json_of = Inr (Success demo_handle) \<rparr>"

definition demo_state :: "string \<Rightarrow> json option \<Rightarrow> string option \<Rightarrow> workflow_state" where
  "demo_state st out err =
     \<lparr> state_executionId = ''e1'', state_workflowId = ''w1'', state_ipfsCid = ''cid1'',
       state_status = st,
       state_data = \<lparr> data_status = st, data_workflowId = ''w1'', data_executionId = ''e1'',
                      data_input = JObj [(''x'', JNum 1)], data_output = out,
                      data_startTime = Some ''t0'', data_completedTime = Some ''t1'',
                      data_error = err \<rparr> \<rparr>"

definition demo_reply :: "string \<Rightarrow> json option \<Rightarrow> string option \<Rightarrow> workflow_state outcome" where
  "demo_reply st out err =
     Resolves \<lparr> ok = True, status = 200, text_of = [], json_of = Inr (Success (demo_state st out err)) \<rparr>"

text \<open>
  A key library for concrete runs: it accepts the private key of the repository's test
  script and, to rely on nothing else, throws on every other key.
\<close>

definition test_key :: string where
  "test_key = ''0x6e33c4b2889465237da5941e833902d2db086acb691b2e536e728f491cc2c757''"

definition test_privateKeyToAccount :: "string \<Rightarrow> string + account" where
  "test_privateKeyToAccount key =
     (if key = test_key then Inr (Account key) else Inl ''invalid private key'')"

text \<open>
  A client without a private key, as \<open>new OpenFlow({baseUrl, maxPollAttempts: 3})\<close>
  builds it, and a config that brings its own payment header.
\<close>

definition demo_options :: options where
  "demo_options =
     \<lparr> opt_privateKey = None, opt_baseUrl = Some ''http://localhost:3000'',
       opt_pollInterval = None, opt_maxPollAttempts = Some 3 \<rparr>"

definition demo_client :: client where
  "demo_client =
     \<lparr> privateKey = None, baseUrl = ''http://localhost:3000'', pollInterval = 2000,
       maxPollAttempts = 3, x402Fetch = False \<rparr>"

definition demo_cfg :: config where
  "demo_cfg =
     \<lparr> cfg_input = Some (JObj [(''x'', JNum 1)]), cfg_xPayment = Some ''signed-payment'',
       cfg_testMode = None \<rparr>"

section \<open>Properties\<close>

subsection \<open>The log of the poll loop\<close>

lemma rounds_0 [simp]: "rounds c eid 0 = []"
  by (simp add: rounds_def)

lemma rounds_Suc:
  "rounds c eid (Suc n) = rounds c eid n @ [Call (state_request c eid), Sleep (pollInterval c)]"
proof -
  have "replicate (Suc n) x = replicate n x @ [x]" for x :: "event list"
    by (simp add: replicate_append_same)
  then show ?thesis unfolding rounds_def by (simp del: replicate.simps)
qed

lemma calls_append [simp]: "calls (xs @ ys) = calls xs @ calls ys"
  by (simp add: calls_def)

lemma calls_simps [simp]:
  "calls [] = []"
  "calls (Call r # evs) = r # calls evs"
  "calls (Sleep ms # evs) = calls evs"
  by (simp_all add: calls_def)

lemma calls_rounds: "calls (rounds c eid n) = replicate n (state_request c eid)"
  by (induction n) (simp_all add: rounds_def calls_def)

lemma polled_state_SomeD:
  "polled_state reply = Some d \<Longrightarrow>
   \<exists>response. reply = Resolves response \<and> ok response \<and> json_of response = Inr (Success d)"
  by (cases reply) (auto split: if_splits sum.splits payload.splits)

lemma getWorkflowState_polled:
  "polled_state (query_reply e log (state_request c eid)) = Some d \<Longrightarrow>
   getWorkflowState c e log eid = (Inr d, log @ [Call (state_request c eid)])"
  by (auto dest!: polled_state_SomeD simp: getWorkflowState_def)

lemma getWorkflowState_log:
  "snd (getWorkflowState c e log eid) = log @ [Call (state_request c eid)]"
  by (simp add: getWorkflowState_def Let_def split: outcome.splits sum.splits payload.splits)

text \<open>One non-terminal attempt: a query, a sleep, and the loop goes on.\<close>

lemma pollLoop_pending:
  assumes "attempts < maxPollAttempts c"
    and "pending (query_reply e log (state_request c eid))"
  shows "pollLoop c e eid attempts log =
         pollLoop c e eid (attempts + 1) (log @ [Call (state_request c eid), Sleep (pollInterval c)])"
proof -
  from assms(2) obtain d where d: "polled_state (query_reply e log (state_request c eid)) = Some d"
    and nt: "state_status d \<noteq> ''completed''" "state_status d \<noteq> ''failed''"
    by (auto simp: pending_def split: option.splits)
  show ?thesis
    by (subst pollLoop.simps) (simp add: assms(1) getWorkflowState_polled [OF d] nt)
qed

text \<open>By induction, \<open>n\<close> non-terminal attempts in a row.\<close>

lemma pollLoop_rounds:
  assumes "\<forall>j<n. pending (polled c e eid log j)"
    and "attempts + int n \<le> maxPollAttempts c"
  shows "pollLoop c e eid attempts log = pollLoop c e eid (attempts + int n) (log @ rounds c eid n)"
  using assms
proof (induction n)
  case 0
  then show ?case by simp
next
  case (Suc n)
  from Suc.prems have ih:
    "pollLoop c e eid attempts log = pollLoop c e eid (attempts + int n) (log @ rounds c eid n)"
    by (intro Suc.IH) auto
  from Suc.prems have p: "pending (query_reply e (log @ rounds c eid n) (state_request c eid))"
    by (auto simp: polled_def)
  from Suc.prems have lt: "attempts + int n < maxPollAttempts c" by simp
  show ?case
    using pollLoop_pending [OF lt p] ih by (simp add: rounds_Suc ac_simps)
qed

text \<open>
  When the first \<open>m\<close> attempts are non-terminal and another attempt is allowed, the loop
  makes attempt \<open>m + 1\<close> and decides on its reply.
\<close>

lemma pollForCompletion_reach:
  assumes "\<forall>j<m. pending (polled c e eid log j)" and "int m < maxPollAttempts c"
  shows "pollForCompletion c e log eid =
     (case getWorkflowState c e (log @ rounds c eid m) eid of
           (Inl err, log') \<Rightarrow> (Inl err, log')
         | (Inr state, log') \<Rightarrow>
             if state_status state = ''completed'' then (Inr state, log')
             else if state_status state = ''failed'' then
               (Inl (Error (''Workflow execution failed: ''
                            @ or_else (data_error (state_data state)) ''Unknown error'')), log')
             else pollLoop c e eid (int m + 1) (log' @ [Sleep (pollInterval c)]))"
proof -
  have "pollForCompletion c e log eid = pollLoop c e eid (int m) (log @ rounds c eid m)"
    unfolding pollForCompletion_def using pollLoop_rounds [of m c e eid log 0] assms by simp
  also have "\<dots> = (case getWorkflowState c e (log @ rounds c eid m) eid of
           (Inl err, log') \<Rightarrow> (Inl err, log')
         | (Inr state, log') \<Rightarrow>
             if state_status state = ''completed'' then (Inr state, log')
             else if state_status state = ''failed'' then
               (Inl (Error (''Workflow execution failed: ''
                            @ or_else (data_error (state_data state)) ''Unknown error'')), log')
             else pollLoop c e eid (int m + 1) (log' @ [Sleep (pollInterval c)]))"
    by (subst pollLoop.simps) (simp add: assms(2))
  finally show ?thesis .
qed

lemma pollForCompletion_completed:
  assumes "\<forall>j<m. pending (polled c e eid log j)" and "int m < maxPollAttempts c"
    and "polled_state (polled c e eid log m) = Some st" and "state_status st = ''completed''"
  shows "pollForCompletion c e log eid = (Inr st, log @ rounds c eid m @ [Call (state_request c eid)])"
  using assms(3,4) unfolding pollForCompletion_reach [OF assms(1,2)]
  by (simp add: polled_def getWorkflowState_polled)

lemma pollForCompletion_failed:
  assumes "\<forall>j<m. pending (polled c e eid log j)" and "int m < maxPollAttempts c"
    and "polled_state (polled c e eid log m) = Some st" and "state_status st = ''failed''"
  shows "pollForCompletion c e log eid =
    (Inl (ExecutionError ''Workflow execution failed: '' (data_error (state_data st))),
     log @ rounds c eid m @ [Call (state_request c eid)])"
  using assms(3,4) unfolding pollForCompletion_reach [OF assms(1,2)]
  by (simp add: polled_def getWorkflowState_polled ExecutionError_def)

lemma pollForCompletion_exhausted:
  assumes "\<forall>j<nat (maxPollAttempts c). pending (polled c e eid log j)"
  shows "pollForCompletion c e log eid =
    (Inl (TimeoutError (maxPollAttempts c)), log @ rounds c eid (nat (maxPollAttempts c)))"
proof -
  have "pollForCompletion c e log eid
      = pollLoop c e eid (int (nat (maxPollAttempts c))) (log @ rounds c eid (nat (maxPollAttempts c)))"
    unfolding pollForCompletion_def
    using pollLoop_rounds [of "nat (maxPollAttempts c)" c e eid log 0] assms by simp
  also have "\<dots> = (Inl (TimeoutError (maxPollAttempts c)), log @ rounds c eid (nat (maxPollAttempts c)))"
    by (subst pollLoop.simps) (simp add: TimeoutError_def)
  finally show ?thesis .
qed

text \<open>The loop returns a state only from the branch that tests for \<open>completed\<close>.\<close>

lemma pollLoop_Inr_completed:
  "pollLoop c e eid attempts log = (Inr st, log') \<Longrightarrow> state_status st = ''completed''"
proof (induction c e eid attempts log rule: pollLoop.induct)
  case (1 c e executionId attempts log)
  from "1.prems" show ?case
    apply (subst (asm) pollLoop.simps)
    apply (auto split: if_splits prod.splits sum.splits dest: "1.IH")
    done
qed

text \<open>The loop only appends to the log.\<close>

lemma pollLoop_log_extends:
  "\<exists>rest. snd (pollLoop c e eid attempts log) = log @ rest"
proof (induction c e eid attempts log rule: pollLoop.induct)
  case (1 c e executionId attempts log)
  show ?case
  proof (cases "attempts < maxPollAttempts c")
    case False
    then show ?thesis by (subst pollLoop.simps) simp
  next
    case True
    obtain r l where g: "getWorkflowState c e log executionId = (r, l)" by force
    with getWorkflowState_log [of c e log executionId]
    have l: "l = log @ [Call (state_request c executionId)]" by simp
    show ?thesis
    proof (cases r)
      case (Inl a)
      then show ?thesis using True g l by (subst pollLoop.simps) simp
    next
      case (Inr st)
      show ?thesis
      proof (cases "state_status st = ''completed'' \<or> state_status st = ''failed''")
        case terminal: True
        then show ?thesis using True g l Inr by (subst pollLoop.simps) auto
      next
        case False
        then have "state_status st \<noteq> ''completed''" "state_status st \<noteq> ''failed''" by auto
        from "1.IH" [OF True g [symmetric] Inr this]
        obtain rest where
          "snd (pollLoop c e executionId (attempts + 1) (l @ [Sleep (pollInterval c)]))
             = (l @ [Sleep (pollInterval c)]) @ rest"
          by auto
        then show ?thesis using True g l Inr False by (subst pollLoop.simps) auto
      qed
    qed
  qed
qed

subsection \<open>The steps of run\<close>

lemma executeWorkflow_log:
  "snd (executeWorkflow c e log slug input xPayment testMode)
     = log @ [Call (submission_request c slug input xPayment testMode)]"
  by (simp add: executeWorkflow_def Let_def split: outcome.splits sum.splits payload.splits)

lemma run_unpaid:
  "\<not> truthy (privateKey c) \<Longrightarrow> \<not> truthy (cfg_xPayment cfg) \<Longrightarrow>
   run c e log slug cfg = (Inl ConfigurationError, log)"
  by (simp add: run_def ConfigurationError_def)

lemma run_paid:
  assumes "truthy (privateKey c) \<or> truthy (cfg_xPayment cfg)"
  shows "run c e log slug cfg =
           (case executeWorkflow c e log slug (input_of cfg) (cfg_xPayment cfg) (testMode_of cfg) of
              (Inl err, log1) \<Rightarrow> (Inl err, log1)
            | (Inr execution, log1) \<Rightarrow>
                (case pollForCompletion c e log1 (exec_executionId execution) of
                   (Inl err, log2) \<Rightarrow> (Inl err, log2)
                 | (Inr result, log2) \<Rightarrow>
                     (Inr \<lparr> result_executionId = exec_executionId execution,
                            result_workflowId = exec_workflowId execution,
                            result_status = state_status result,
                            result_output = data_output (state_data result),
                            result_ipfsCid = state_ipfsCid result,
                            result_pieceCid = exec_pieceCid execution,
                            result_provider = exec_provider execution,
                            result_completedTime = data_completedTime (state_data result) \<rparr>,
                      log2)))"
  using assms by (auto simp: run_def Let_def)

lemma run_log_starts:
  assumes "truthy (privateKey c) \<or> truthy (cfg_xPayment cfg)"
  shows "\<exists>rest. snd (run c e log slug cfg)
           = log @ Call (submission_request c slug (input_of cfg) (cfg_xPayment cfg) (testMode_of cfg)) # rest"
proof -
  obtain r log1 where ex: "executeWorkflow c e log slug (input_of cfg) (cfg_xPayment cfg) (testMode_of cfg) = (r, log1)"
    by force
  with executeWorkflow_log [of c e log slug "input_of cfg" "cfg_xPayment cfg" "testMode_of cfg"]
  have log1: "log1 = log @ [Call (submission_request c slug (input_of cfg) (cfg_xPayment cfg) (testMode_of cfg))]" by simp
  show ?thesis
  proof (cases r)
    case (Inl a)
    then show ?thesis using ex log1 by (simp add: run_paid [OF assms])
  next
    case (Inr h)
    obtain rest where "snd (pollForCompletion c e log1 (exec_executionId h)) = log1 @ rest"
      using pollLoop_log_extends [of c e "exec_executionId h" 0 log1] by (auto simp: pollForCompletion_def)
    then show ?thesis using ex log1 Inr
      by (cases "pollForCompletion c e log1 (exec_executionId h)")
         (auto simp: run_paid [OF assms] split: sum.splits)
  qed
qed

lemma run_poll_error:
  assumes "truthy (privateKey c) \<or> truthy (cfg_xPayment cfg)"
    and "executeWorkflow c e log slug (input_of cfg) (cfg_xPayment cfg) (testMode_of cfg) = (Inr h, log1)"
    and "pollForCompletion c e log1 (exec_executionId h) = (Inl err, log2)"
  shows "run c e log slug cfg = (Inl err, log2)"
  by (simp add: run_paid [OF assms(1)] assms(2,3))

lemma run_poll_state:
  assumes "truthy (privateKey c) \<or> truthy (cfg_xPayment cfg)"
    and "executeWorkflow c e log slug (input_of cfg) (cfg_xPayment cfg) (testMode_of cfg) = (Inr h, log1)"
    and "pollForCompletion c e log1 (exec_executionId h) = (Inr st, log2)"
  shows "run c e log slug cfg =
     (Inr \<lparr> result_executionId = exec_executionId h,
            result_workflowId = exec_workflowId h,
            result_status = state_status st,
            result_output = data_output (state_data st),
            result_ipfsCid = state_ipfsCid st,
            result_pieceCid = exec_pieceCid h,
            result_provider = exec_provider h,
            result_completedTime = data_completedTime (state_data st) \<rparr>, log2)"
  by (simp add: run_paid [OF assms(1)] assms(2,3))

lemma getWorkflowState_not_ok:
  "query_reply e log (state_request c eid) = Resolves response \<Longrightarrow> \<not> ok response \<Longrightarrow>
   getWorkflowState c e log eid =
     (Inl (TransportError ''Failed to get workflow state: '' (status response) (text_of response)),
      log @ [Call (state_request c eid)])"
  by (simp add: getWorkflowState_def TransportError_def)

lemma getWorkflowState_failure:
  "query_reply e log (state_request c eid) = Resolves response \<Longrightarrow> ok response \<Longrightarrow>
   json_of response = Inr (Failure err) \<Longrightarrow>
   getWorkflowState c e log eid =
     (Inl (ExecutionError ''Failed to get workflow state: '' err),
      log @ [Call (state_request c eid)])"
  by (simp add: getWorkflowState_def ExecutionError_def)

lemma pollForCompletion_query_error:
  assumes "\<forall>j<m. pending (polled c e eid log j)" and "int m < maxPollAttempts c"
    and "polled c e eid log m = Resolves response"
    and "\<not> ok response \<or> json_of response = Inr (Failure err)"
  shows "pollForCompletion c e log eid =
    (Inl (if \<not> ok response
          then TransportError ''Failed to get workflow state: '' (status response) (text_of response)
          else ExecutionError ''Failed to get workflow state: '' err),
     log @ rounds c eid m @ [Call (state_request c eid)])"
proof (cases "ok response")
  case False
  with assms(3) show ?thesis unfolding pollForCompletion_reach [OF assms(1,2)]
    by (simp add: polled_def getWorkflowState_not_ok)
next
  case True
  with assms(3,4) show ?thesis unfolding pollForCompletion_reach [OF assms(1,2)]
    by (simp add: polled_def getWorkflowState_failure)
qed

subsection \<open>Replies of the scripted server\<close>

lemma state_request_GET: "http_method (state_request c eid) = ''GET''"
  by (simp add: state_request_def)

lemma polled_scripted:
  assumes "filter (\<lambda>r. http_method r = ''GET'') (calls log) = []"
  shows "polled c (scripted ack replies) eid log j =
     (if j < length replies then replies ! j else Rejects ''connection refused'')"
  using assms by (simp add: polled_def scripted_def calls_rounds state_request_GET)

text \<open>The constructor builds \<open>demo_client\<close> from \<open>demo_options\<close>, whatever the key library.\<close>

lemma demo_client_constructed:
  "constructor privateKeyToAccount demo_options = Inr demo_client"
  by (simp add: constructor_def demo_options_def demo_client_def)

lemma demo_submit:
  "executeWorkflow demo_client (scripted demo_ack replies) [] ''demo'' (input_of demo_cfg)
       (cfg_xPayment demo_cfg) (testMode_of demo_cfg)
     = (Inr demo_handle,
        [Call (submission_request demo_client ''demo'' (JObj [(''x'', JNum 1)]) (Some ''signed-payment'') True)])"
  by (simp add: executeWorkflow_def scripted_def demo_ack_def demo_cfg_def input_of_def testMode_of_def demo_handle_def)

lemma demo_post_not_GET:
  "filter (\<lambda>r. http_method r = ''GET'')
     (calls [Call (submission_request demo_client ''demo'' (JObj [(''x'', JNum 1)]) (Some ''signed-payment'') True)]) = []"
  by (simp add: submission_request_def Let_def)

lemma demo_run:
  "run demo_client
      (scripted demo_ack [demo_reply ''processing'' None None,
                          demo_reply ''completed'' (Some (JObj [(''y'', JNum 2)])) None])
      [] ''demo'' demo_cfg
     = (Inr \<lparr> result_executionId = ''e1'', result_workflowId = ''w1'', result_status = ''completed'',
              result_output = Some (JObj [(''y'', JNum 2)]), result_ipfsCid = ''cid1'',
              result_pieceCid = ''piece1'', result_provider = ''provider1'',
              result_completedTime = Some ''t1'' \<rparr>,
        [Call (submission_request demo_client ''demo'' (JObj [(''x'', JNum 1)]) (Some ''signed-payment'') True),
         Call (state_request demo_client ''e1''), Sleep 2000,
         Call (state_request demo_client ''e1'')])"
proof -
  let ?e = "scripted demo_ack [demo_reply ''processing'' None None,
                               demo_reply ''completed'' (Some (JObj [(''y'', JNum 2)])) None]"
  let ?log1 = "[Call (submission_request demo_client ''demo'' (JObj [(''x'', JNum 1)]) (Some ''signed-payment'') True)]"
  have pay: "truthy (privateKey demo_client) \<or> truthy (cfg_xPayment demo_cfg)"
    by (simp add: demo_client_def demo_cfg_def)
  have lt: "int 1 < maxPollAttempts demo_client"
    by (simp add: demo_client_def)
  have before: "\<forall>j<1. pending (polled demo_client ?e (exec_executionId demo_handle) ?log1 j)"
    by (simp add: polled_scripted [OF demo_post_not_GET] pending_def demo_reply_def demo_state_def)
  have final: "polled_state (polled demo_client ?e (exec_executionId demo_handle) ?log1 1)
                 = Some (demo_state ''completed'' (Some (JObj [(''y'', JNum 2)])) None)"
    by (simp add: polled_scripted [OF demo_post_not_GET] demo_reply_def)
  have st: "state_status (demo_state ''completed'' (Some (JObj [(''y'', JNum 2)])) None) = ''completed''"
    by (simp add: demo_state_def)
  have r1: "rounds demo_client ''e1'' (Suc 0) = [Call (state_request demo_client ''e1''), Sleep 2000]"
    by (simp add: rounds_def demo_client_def)
  from run_poll_state [OF pay demo_submit pollForCompletion_completed [OF before lt final st]]
  show ?thesis by (simp add: demo_handle_def demo_state_def r1)
qed

lemma demo_prod_calls:
  "\<exists>rest. calls (snd (run demo_client (scripted demo_ack []) [] ''demo''
                      (demo_cfg\<lparr> cfg_testMode := Some False \<rparr>)))
     = submission_request demo_client ''demo'' (JObj [(''x'', JNum 1)]) (Some ''signed-payment'') False # rest"
proof -
  have pay: "truthy (privateKey demo_client) \<or> truthy (cfg_xPayment (demo_cfg\<lparr> cfg_testMode := Some False \<rparr>))"
    by (simp add: demo_client_def demo_cfg_def)
  from run_log_starts [OF pay, of "scripted demo_ack []" "[]" "''demo''"]
  obtain rest where "snd (run demo_client (scripted demo_ack []) [] ''demo''
                      (demo_cfg\<lparr> cfg_testMode := Some False \<rparr>))
     = Call (submission_request demo_client ''demo'' (JObj [(''x'', JNum 1)]) (Some ''signed-payment'') False) # rest"
    by (auto simp: input_of_def testMode_of_def demo_cfg_def)
  then show ?thesis by simp
qed

section \<open>The claims\<close>

subsection \<open>Submission\<close>

text \<open>
  C1. The claim is that a production run (\<open>testMode = false\<close>) posts to \<open>/workflow/<slug>\<close>
  with the slug substituted, and a test run to \<open>/test-workflow\<close>. The source builds the
  production URL from the constant \<open>/workflow/:slug\<close> and never substitutes the slug: on
  the client built without a private key, with a payment header in the config, the POST
  for the slug \<open>demo\<close> goes to \<open>/workflow/:slug\<close>, not to \<open>/workflow/demo\<close>. The test
  endpoint is as claimed.
\<close>

theorem production_url_keeps_placeholder:
  "constructor test_privateKeyToAccount demo_options = Inr demo_client
   \<and> url (hd (calls (snd (run demo_client (scripted demo_ack []) [] ''demo''
                          (demo_cfg\<lparr> cfg_testMode := Some False \<rparr>)))))
     = ''http://localhost:3000/workflow/:slug''
   \<and> url (hd (calls (snd (run demo_client (scripted demo_ack []) [] ''demo''
                          (demo_cfg\<lparr> cfg_testMode := Some False \<rparr>)))))
     \<noteq> ''http://localhost:3000/workflow/demo''
   \<and> url (hd (calls (snd (run demo_client (scripted demo_ack []) [] ''demo''
                          (demo_cfg\<lparr> cfg_testMode := Some True \<rparr>)))))
     = ''http://localhost:3000/test-workflow''"
proof -
  have pay: "truthy (privateKey demo_client) \<or> truthy (cfg_xPayment (demo_cfg\<lparr> cfg_testMode := Some True \<rparr>))"
    by (simp add: demo_client_def demo_cfg_def)
  from demo_prod_calls obtain rest where prod:
    "calls (snd (run demo_client (scripted demo_ack []) [] ''demo''
                      (demo_cfg\<lparr> cfg_testMode := Some False \<rparr>)))
     = submission_request demo_client ''demo'' (JObj [(''x'', JNum 1)]) (Some ''signed-payment'') False # rest" ..
  from run_log_starts [OF pay, of "scripted demo_ack []" "[]" "''demo''"]
  obtain rest' where test:
    "snd (run demo_client (scripted demo_ack []) [] ''demo'' (demo_cfg\<lparr> cfg_testMode := Some True \<rparr>))
     = Call (submission_request demo_client ''demo'' (JObj [(''x'', JNum 1)]) (Some ''signed-payment'') True) # rest'"
    by (auto simp: input_of_def testMode_of_def demo_cfg_def)
  show ?thesis unfolding prod test
    by (simp add: submission_request_def demo_client_def demo_client_constructed)
qed

text \<open>
  Against C2 as stated: on the client built without a private key, with a payment header
  in the config, the body of a production submission (\<open>testMode = false\<close>) for the slug
  \<open>demo\<close> and the input \<open>{"x": 1}\<close> is \<open>{slug, input}\<close>, not \<open>{input}\<close>.
\<close>

theorem production_body_counterexample:
  "constructor test_privateKeyToAccount demo_options = Inr demo_client
   \<and> body (hd (calls (snd (run demo_client (scripted demo_ack []) [] ''demo''
                          (demo_cfg\<lparr> cfg_testMode := Some False \<rparr>)))))
     = Some (JObj [(''slug'', JStr ''demo''), (''input'', JObj [(''x'', JNum 1)])])
   \<and> body (hd (calls (snd (run demo_client (scripted demo_ack []) [] ''demo''
                          (demo_cfg\<lparr> cfg_testMode := Some False \<rparr>)))))
     \<noteq> Some (JObj [(''input'', JObj [(''x'', JNum 1)])])"
proof -
  from demo_prod_calls obtain rest where
    "calls (snd (run demo_client (scripted demo_ack []) [] ''demo''
                      (demo_cfg\<lparr> cfg_testMode := Some False \<rparr>)))
     = submission_request demo_client ''demo'' (JObj [(''x'', JNum 1)]) (Some ''signed-payment'') False # rest" ..
  then show ?thesis by (simp add: submission_request_def demo_client_def demo_client_constructed)
qed

text \<open>
  C2, as the source has it. Every run that passes the payment check posts as its first
  call a body \<open>{slug, input}\<close>, in test mode and in production mode alike: the body is
  built before the transport is chosen and does not depend on \<open>testMode\<close>.
\<close>

theorem submission_body_slug_and_input:
  assumes "truthy (privateKey c) \<or> truthy (cfg_xPayment cfg)"
  shows "\<exists>rest. snd (run c e log slug cfg) =
            log @ Call (submission_request c slug (input_of cfg) (cfg_xPayment cfg) (testMode_of cfg)) # rest
          \<and> http_method (submission_request c slug (input_of cfg) (cfg_xPayment cfg) (testMode_of cfg)) = ''POST''
          \<and> body (submission_request c slug (input_of cfg) (cfg_xPayment cfg) (testMode_of cfg))
              = Some (JObj [(''slug'', JStr slug), (''input'', input_of cfg)])"
proof -
  from run_log_starts [OF assms] obtain rest where
    "snd (run c e log slug cfg) =
       log @ Call (submission_request c slug (input_of cfg) (cfg_xPayment cfg) (testMode_of cfg)) # rest" ..
  then show ?thesis by (simp add: submission_request_def Let_def)
qed

theorem submission_body_slug_and_input_witness:
  "\<exists>rest. snd (run demo_client (scripted demo_ack []) [] ''demo'' (demo_cfg\<lparr> cfg_testMode := Some False \<rparr>)) =
      Call (submission_request demo_client ''demo'' (JObj [(''x'', JNum 1)]) (Some ''signed-payment'') False) # rest
    \<and> body (submission_request demo_client ''demo'' (JObj [(''x'', JNum 1)]) (Some ''signed-payment'') False)
        = Some (JObj [(''slug'', JStr ''demo''), (''input'', JObj [(''x'', JNum 1)])])"
proof -
  have pay: "truthy (privateKey demo_client) \<or> truthy (cfg_xPayment (demo_cfg\<lparr> cfg_testMode := Some False \<rparr>))"
    by (simp add: demo_client_def demo_cfg_def)
  from submission_body_slug_and_input [OF pay, of "scripted demo_ack []" "[]" "''demo''"]
  show ?thesis by (simp add: input_of_def testMode_of_def demo_cfg_def)
qed

subsection \<open>Payment precondition\<close>

text \<open>
  C3. A client constructed without a usable \<open>privateKey\<close>, asked to \<open>run\<close> with a config
  that has no usable \<open>xPayment\<close>, fails at once with the configuration error, and the log
  is unchanged: no submission and no status query was issued. (The source raises a plain
  \<open>Error\<close>; \<open>ConfigurationError\<close> is that error with its message.)
\<close>

theorem run_without_payment_method:
  assumes "\<not> truthy (opt_privateKey opts)" and "\<not> truthy (cfg_xPayment cfg)"
  shows "\<exists>c. constructor privateKeyToAccount opts = Inr c
             \<and> run c e log slug cfg = (Inl ConfigurationError, log)"
proof -
  let ?c = "\<lparr> privateKey = None,
              baseUrl = or_else (opt_baseUrl opts) ''https://workflow-api.openflow.sh'',
              pollInterval = num_or (opt_pollInterval opts) 2000,
              maxPollAttempts = num_or (opt_maxPollAttempts opts) 150,
              x402Fetch = False \<rparr>"
  from assms(1) have "constructor privateKeyToAccount opts = Inr ?c"
    by (simp add: constructor_def)
  moreover from assms(2) have "run ?c e log slug cfg = (Inl ConfigurationError, log)"
    by (simp add: run_unpaid)
  ultimately show ?thesis by (intro exI conjI)
qed

theorem run_without_payment_method_witness:
  "\<not> truthy (opt_privateKey demo_options)
   \<and> \<not> truthy (cfg_xPayment \<lparr> cfg_input = None, cfg_xPayment = Some [], cfg_testMode = None \<rparr>)
   \<and> constructor test_privateKeyToAccount demo_options = Inr demo_client
   \<and> run demo_client (scripted demo_ack []) [] ''demo''
          \<lparr> cfg_input = None, cfg_xPayment = Some [], cfg_testMode = None \<rparr>
       = (Inl (Error ''Either privateKey must be provided in OpenFlow constructor or xPayment header must be provided in config''), [])"
  using run_without_payment_method
    [of demo_options "\<lparr> cfg_input = None, cfg_xPayment = Some [], cfg_testMode = None \<rparr>"
        test_privateKeyToAccount "scripted demo_ack []" "[]" "''demo''"]
  by (simp add: ConfigurationError_def demo_client_constructed) (simp add: demo_options_def)

subsection \<open>The poll loop\<close>

text \<open>
  In the claims below the polled sequence is \<open>polled c e executionId log\<close>, and attempt
  \<open>k\<close> is the \<open>k\<close>-th status query of the loop. The loop makes attempt \<open>k\<close> exactly when
  \<open>k \<le> maxPollAttempts\<close> and the \<open>k - 1\<close> attempts before it returned a status that is
  neither \<open>completed\<close> nor \<open>failed\<close>. A submission is one call of \<open>fetch\<close> or of the
  payment wrapper.
\<close>

text \<open>
  C4. When the submission returned the handle \<open>h\<close> and the first terminal status of the
  polled sequence is \<open>completed\<close>, at attempt \<open>k\<close> with \<open>1 \<le> k \<le> maxPollAttempts\<close>, then
  \<open>run\<close> returns the result whose \<open>output\<close>, \<open>ipfsCid\<close> and \<open>completedTime\<close> are those of
  that final state and whose \<open>executionId\<close>, \<open>workflowId\<close>, \<open>pieceCid\<close> and \<open>provider\<close>
  are those of the handle; the calls made are the one submission followed by exactly
  \<open>k\<close> status queries.
\<close>

theorem run_completed_at_attempt:
  assumes payment: "truthy (privateKey c) \<or> truthy (cfg_xPayment cfg)"
    and submit: "executeWorkflow c e log slug (input_of cfg) (cfg_xPayment cfg) (testMode_of cfg)
                   = (Inr h, log1)"
    and k: "1 \<le> k" "int k \<le> maxPollAttempts c"
    and before: "\<forall>j<k - 1. pending (polled c e (exec_executionId h) log1 j)"
    and final: "polled_state (polled c e (exec_executionId h) log1 (k - 1)) = Some st"
               "state_status st = ''completed''"
  shows "run c e log slug cfg =
           (Inr \<lparr> result_executionId = exec_executionId h,
                  result_workflowId = exec_workflowId h,
                  result_status = ''completed'',
                  result_output = data_output (state_data st),
                  result_ipfsCid = state_ipfsCid st,
                  result_pieceCid = exec_pieceCid h,
                  result_provider = exec_provider h,
                  result_completedTime = data_completedTime (state_data st) \<rparr>,
            log @ [Call (submission_request c slug (input_of cfg) (cfg_xPayment cfg) (testMode_of cfg))]
                @ rounds c (exec_executionId h) (k - 1)
                @ [Call (state_request c (exec_executionId h))])
         \<and> calls (snd (run c e log slug cfg)) =
             calls log
             @ submission_request c slug (input_of cfg) (cfg_xPayment cfg) (testMode_of cfg)
             # replicate k (state_request c (exec_executionId h))"
proof -
  let ?q = "state_request c (exec_executionId h)"
  from executeWorkflow_log [of c e log slug "input_of cfg" "cfg_xPayment cfg" "testMode_of cfg"] submit
  have log1: "log1 = log @ [Call (submission_request c slug (input_of cfg) (cfg_xPayment cfg) (testMode_of cfg))]"
    by simp
  from k have lt: "int (k - 1) < maxPollAttempts c" by simp
  have poll: "pollForCompletion c e log1 (exec_executionId h)
                = (Inr st, log1 @ rounds c (exec_executionId h) (k - 1) @ [Call ?q])"
    by (rule pollForCompletion_completed [OF before lt final])
  have r: "run c e log slug cfg =
           (Inr \<lparr> result_executionId = exec_executionId h,
                  result_workflowId = exec_workflowId h,
                  result_status = ''completed'',
                  result_output = data_output (state_data st),
                  result_ipfsCid = state_ipfsCid st,
                  result_pieceCid = exec_pieceCid h,
                  result_provider = exec_provider h,
                  result_completedTime = data_completedTime (state_data st) \<rparr>,
            log @ [Call (submission_request c slug (input_of cfg) (cfg_xPayment cfg) (testMode_of cfg))]
                @ rounds c (exec_executionId h) (k - 1) @ [Call ?q])"
    using run_poll_state [OF payment submit poll] final(2) log1 by simp
  have "replicate (k - 1) ?q @ [?q] = replicate k ?q"
    using k(1) by (cases k) (simp_all add: replicate_append_same)
  then have "calls (snd (run c e log slug cfg)) =
             calls log
             @ submission_request c slug (input_of cfg) (cfg_xPayment cfg) (testMode_of cfg)
             # replicate k ?q"
    unfolding r by (simp add: calls_rounds)
  with r show ?thesis by (rule_tac conjI)
qed

theorem run_completed_at_attempt_witness:
  "fst (run demo_client
          (scripted demo_ack [demo_reply ''processing'' None None,
                              demo_reply ''completed'' (Some (JObj [(''y'', JNum 2)])) None])
          [] ''demo'' demo_cfg)
     = Inr \<lparr> result_executionId = ''e1'', result_workflowId = ''w1'', result_status = ''completed'',
             result_output = Some (JObj [(''y'', JNum 2)]), result_ipfsCid = ''cid1'',
             result_pieceCid = ''piece1'', result_provider = ''provider1'',
             result_completedTime = Some ''t1'' \<rparr>
   \<and> length (calls (snd (run demo_client
          (scripted demo_ack [demo_reply ''processing'' None None,
                              demo_reply ''completed'' (Some (JObj [(''y'', JNum 2)])) None])
          [] ''demo'' demo_cfg))) = 3"
proof -
  let ?e = "scripted demo_ack [demo_reply ''processing'' None None,
                               demo_reply ''completed'' (Some (JObj [(''y'', JNum 2)])) None]"
  let ?log1 = "[Call (submission_request demo_client ''demo'' (JObj [(''x'', JNum 1)]) (Some ''signed-payment'') True)]"
  have pay: "truthy (privateKey demo_client) \<or> truthy (cfg_xPayment demo_cfg)"
    by (simp add: demo_client_def demo_cfg_def)
  have k: "1 \<le> (2::nat)" "int 2 \<le> maxPollAttempts demo_client"
    by (simp_all add: demo_client_def)
  have before: "\<forall>j<2 - 1. pending (polled demo_client ?e (exec_executionId demo_handle) ?log1 j)"
    by (simp add: polled_scripted [OF demo_post_not_GET] pending_def demo_reply_def demo_state_def)
  have final: "polled_state (polled demo_client ?e (exec_executionId demo_handle) ?log1 (2 - 1))
                 = Some (demo_state ''completed'' (Some (JObj [(''y'', JNum 2)])) None)"
    by (simp add: polled_scripted [OF demo_post_not_GET] demo_reply_def)
  have st: "state_status (demo_state ''completed'' (Some (JObj [(''y'', JNum 2)])) None) = ''completed''"
    by (simp add: demo_state_def)
  from run_completed_at_attempt [OF pay demo_submit k before final st]
  show ?thesis by (simp add: demo_handle_def demo_state_def calls_rounds)
qed

text \<open>
  C5. When attempt \<open>k\<close> of the poll loop returns the status \<open>failed\<close>, the loop fails at
  that attempt with the execution error \<open>Workflow execution failed: \<close> followed by the
  state's \<open>data.error\<close> (\<open>Unknown error\<close> when that is missing or empty), and the calls of
  the loop are exactly \<open>k\<close> status queries: none is made after attempt \<open>k\<close>.
\<close>

theorem poll_fails_on_failed_status:
  assumes k: "1 \<le> k" "int k \<le> maxPollAttempts c"
    and before: "\<forall>j<k - 1. pending (polled c e executionId log j)"
    and failed: "polled_state (polled c e executionId log (k - 1)) = Some st"
                "state_status st = ''failed''"
  shows "pollForCompletion c e log executionId =
           (Inl (Error (''Workflow execution failed: ''
                        @ (case data_error (state_data st) of
                             None \<Rightarrow> ''Unknown error''
                           | Some m \<Rightarrow> if m = [] then ''Unknown error'' else m))),
            log @ rounds c executionId (k - 1) @ [Call (state_request c executionId)])
         \<and> fst (pollForCompletion c e log executionId) =
             Inl (ExecutionError ''Workflow execution failed: '' (data_error (state_data st)))
         \<and> calls (snd (pollForCompletion c e log executionId)) =
             calls log @ replicate k (state_request c executionId)"
proof -
  let ?q = "state_request c executionId"
  from k have lt: "int (k - 1) < maxPollAttempts c" by simp
  have poll: "pollForCompletion c e log executionId =
      (Inl (ExecutionError ''Workflow execution failed: '' (data_error (state_data st))),
       log @ rounds c executionId (k - 1) @ [Call ?q])"
    by (rule pollForCompletion_failed [OF before lt failed])
  have "replicate (k - 1) ?q @ [?q] = replicate k ?q"
    using k(1) by (cases k) (simp_all add: replicate_append_same)
  then have "calls (snd (pollForCompletion c e log executionId)) = calls log @ replicate k ?q"
    unfolding poll by (simp add: calls_rounds)
  moreover have "ExecutionError ''Workflow execution failed: '' (data_error (state_data st))
    = Error (''Workflow execution failed: ''
                        @ (case data_error (state_data st) of
                             None \<Rightarrow> ''Unknown error''
                           | Some m \<Rightarrow> if m = [] then ''Unknown error'' else m))"
    by (simp add: ExecutionError_def split: option.splits)
  ultimately show ?thesis using poll by simp
qed

theorem poll_fails_on_failed_status_witness:
  "pollForCompletion demo_client
      (scripted demo_ack [demo_reply ''failed'' None (Some ''bad input''),
                          demo_reply ''completed'' None None])
      [] ''e1''
     = (Inl (Error ''Workflow execution failed: bad input''), [Call (state_request demo_client ''e1'')])"
proof -
  let ?e = "scripted demo_ack [demo_reply ''failed'' None (Some ''bad input''),
                               demo_reply ''completed'' None None]"
  have noget: "filter (\<lambda>r. http_method r = ''GET'') (calls []) = []" by simp
  have k: "1 \<le> (1::nat)" "int 1 \<le> maxPollAttempts demo_client"
    by (simp_all add: demo_client_def)
  have before: "\<forall>j<1 - 1. pending (polled demo_client ?e ''e1'' [] j)" by simp
  have failed: "polled_state (polled demo_client ?e ''e1'' [] (1 - 1))
                 = Some (demo_state ''failed'' None (Some ''bad input''))"
    by (simp add: polled_scripted [OF noget] demo_reply_def)
  have st: "state_status (demo_state ''failed'' None (Some ''bad input'')) = ''failed''"
    by (simp add: demo_state_def)
  from poll_fails_on_failed_status [OF k before failed st]
  show ?thesis by (simp add: demo_state_def)
qed

text \<open>
  C6. When none of the attempts \<open>1 .. maxPollAttempts\<close> returns \<open>completed\<close> or \<open>failed\<close>
  (whatever other status strings they return), the loop makes exactly \<open>maxPollAttempts\<close>
  status queries, each followed by a sleep, and fails with the timeout error whose message
  prints \<open>maxPollAttempts\<close>. (\<open>maxPollAttempts\<close> is an integer of the client; \<open>nat\<close> reads
  it as the count it is when not negative.)
\<close>

theorem poll_times_out:
  assumes "\<forall>j<nat (maxPollAttempts c). pending (polled c e executionId log j)"
  shows "pollForCompletion c e log executionId =
           (Inl (Error (''Workflow execution timeout after '' @ show_int (maxPollAttempts c)
                        @ '' attempts'')),
            log @ rounds c executionId (nat (maxPollAttempts c)))
         \<and> fst (pollForCompletion c e log executionId) = Inl (TimeoutError (maxPollAttempts c))
         \<and> calls (snd (pollForCompletion c e log executionId)) =
             calls log @ replicate (nat (maxPollAttempts c)) (state_request c executionId)"
  unfolding pollForCompletion_exhausted [OF assms]
  by (simp add: calls_rounds TimeoutError_def)

theorem poll_times_out_witness:
  "pollForCompletion demo_client
      (scripted demo_ack [demo_reply ''processing'' None None,
                          demo_reply ''queued'' None None,
                          demo_reply ''Completed'' None None,
                          demo_reply ''completed'' None None])
      [] ''e1''
     = (Inl (Error ''Workflow execution timeout after 3 attempts''),
        [Call (state_request demo_client ''e1''), Sleep 2000,
         Call (state_request demo_client ''e1''), Sleep 2000,
         Call (state_request demo_client ''e1''), Sleep 2000])"
proof -
  let ?e = "scripted demo_ack [demo_reply ''processing'' None None,
                          demo_reply ''queued'' None None,
                          demo_reply ''Completed'' None None,
                          demo_reply ''completed'' None None]"
  have noget: "filter (\<lambda>r. http_method r = ''GET'') (calls []) = []" by simp
  have three: "nat (maxPollAttempts demo_client) = 3" by (simp add: demo_client_def)
  have "pending (polled demo_client ?e ''e1'' [] j)" if "j < 3" for j
  proof -
    from that have "j = 0 \<or> j = 1 \<or> j = 2" by arith
    then show ?thesis
      by (auto simp: polled_scripted [OF noget] pending_def demo_reply_def demo_state_def)
  qed
  then have all: "\<forall>j<nat (maxPollAttempts demo_client). pending (polled demo_client ?e ''e1'' [] j)"
    by (simp add: three)
  have rounds3: "rounds demo_client ''e1'' 3 =
        [Call (state_request demo_client ''e1''), Sleep 2000,
         Call (state_request demo_client ''e1''), Sleep 2000,
         Call (state_request demo_client ''e1''), Sleep 2000]"
    by (simp add: rounds_def numeral_3_eq_3 demo_client_def)
  have msg: "show_int 3 = ''3''"
    by (simp add: show_int_def show_nat.simps digit_char_def)
  from poll_times_out [OF all]
  show ?thesis by (simp add: three rounds3) (simp add: demo_client_def msg)
qed

text \<open>
  C7. When attempt \<open>k\<close> of the poll loop of a run gets a response that is not ok, or an ok
  response whose payload is a failure, the loop returns the error of that query at once
  (the transport error with status code and body text, or the execution error with the
  server's message), \<open>run\<close> returns the same error, and the status queries made are
  exactly \<open>k\<close>: the query is not retried and no later attempt is made.
\<close>

theorem poll_aborts_on_query_error:
  assumes payment: "truthy (privateKey c) \<or> truthy (cfg_xPayment cfg)"
    and submit: "executeWorkflow c e log slug (input_of cfg) (cfg_xPayment cfg) (testMode_of cfg)
                   = (Inr h, log1)"
    and k: "1 \<le> k" "int k \<le> maxPollAttempts c"
    and before: "\<forall>j<k - 1. pending (polled c e (exec_executionId h) log1 j)"
    and reply: "polled c e (exec_executionId h) log1 (k - 1) = Resolves response"
    and bad: "\<not> ok response \<or> json_of response = Inr (Failure err)"
  shows "pollForCompletion c e log1 (exec_executionId h) =
           (Inl (if \<not> ok response
                 then TransportError ''Failed to get workflow state: '' (status response) (text_of response)
                 else ExecutionError ''Failed to get workflow state: '' err),
            log1 @ rounds c (exec_executionId h) (k - 1) @ [Call (state_request c (exec_executionId h))])
         \<and> run c e log slug cfg =
           (Inl (if \<not> ok response
                 then TransportError ''Failed to get workflow state: '' (status response) (text_of response)
                 else ExecutionError ''Failed to get workflow state: '' err),
            log1 @ rounds c (exec_executionId h) (k - 1) @ [Call (state_request c (exec_executionId h))])
         \<and> calls (snd (run c e log slug cfg)) =
             calls log1 @ replicate k (state_request c (exec_executionId h))"
proof -
  let ?q = "state_request c (exec_executionId h)"
  from k have lt: "int (k - 1) < maxPollAttempts c" by simp
  note poll = pollForCompletion_query_error [OF before lt reply bad]
  note r = run_poll_error [OF payment submit poll]
  have "replicate (k - 1) ?q @ [?q] = replicate k ?q"
    using k(1) by (cases k) (simp_all add: replicate_append_same)
  then have "calls (snd (run c e log slug cfg)) = calls log1 @ replicate k ?q"
    unfolding r by (simp add: calls_rounds)
  with poll r show ?thesis by (intro conjI)
qed

theorem poll_aborts_on_query_error_witness:
  "run demo_client
      (scripted demo_ack
         [demo_reply ''processing'' None None,
          Resolves \<lparr> ok = False, status = 503, text_of = ''unavailable'', json_of = Inl ''not JSON'' \<rparr>,
          demo_reply ''completed'' None None])
      [] ''demo'' demo_cfg
     = (Inl (Error ''Failed to get workflow state: 503 - unavailable''),
        [Call (submission_request demo_client ''demo'' (JObj [(''x'', JNum 1)]) (Some ''signed-payment'') True),
         Call (state_request demo_client ''e1''), Sleep 2000,
         Call (state_request demo_client ''e1'')])"
proof -
  let ?bad = "\<lparr> ok = False, status = 503, text_of = ''unavailable'',
               json_of = Inl ''not JSON'' :: string + workflow_state payload \<rparr>"
  let ?e = "scripted demo_ack
         [demo_reply ''processing'' None None, Resolves ?bad, demo_reply ''completed'' None None]"
  let ?log1 = "[Call (submission_request demo_client ''demo'' (JObj [(''x'', JNum 1)]) (Some ''signed-payment'') True)]"
  have pay: "truthy (privateKey demo_client) \<or> truthy (cfg_xPayment demo_cfg)"
    by (simp add: demo_client_def demo_cfg_def)
  have k: "1 \<le> (2::nat)" "int 2 \<le> maxPollAttempts demo_client"
    by (simp_all add: demo_client_def)
  have before: "\<forall>j<2 - 1. pending (polled demo_client ?e (exec_executionId demo_handle) ?log1 j)"
    by (simp add: polled_scripted [OF demo_post_not_GET] pending_def demo_reply_def demo_state_def)
  have reply: "polled demo_client ?e (exec_executionId demo_handle) ?log1 (2 - 1) = Resolves ?bad"
    by (simp add: polled_scripted [OF demo_post_not_GET])
  have bad: "\<not> ok ?bad \<or> json_of ?bad = Inr (Failure None)" by simp
  have msg: "show_int 503 = ''503''"
    by (simp add: show_int_def show_nat.simps digit_char_def)
  have r1: "rounds demo_client ''e1'' (Suc 0) = [Call (state_request demo_client ''e1''), Sleep 2000]"
    by (simp add: rounds_def demo_client_def)
  from poll_aborts_on_query_error [OF pay demo_submit k before reply bad]
  show ?thesis by (simp add: demo_handle_def TransportError_def msg r1)
qed

subsection \<open>getState\<close>

text \<open>
  C8. \<open>getState\<close> adds exactly one call to the log, whatever the reply: a GET through
  plain \<open>fetch\<close> to \<open>/workflow-state/<executionId>\<close> whose headers have no \<open>X-Payment\<close>.
  Its result does not depend on the client's \<open>privateKey\<close> or payment wrapper (and it
  takes no config, so no \<open>xPayment\<close> either): no payment precondition is checked.
\<close>

theorem getState_single_query:
  "getState (c\<lparr> privateKey := pk, x402Fetch := w \<rparr>) e log executionId = getState c e log executionId
   \<and> snd (getState c e log executionId) = log @ [Call (state_request c executionId)]
   \<and> via (state_request c executionId) = Fetch
   \<and> http_method (state_request c executionId) = ''GET''
   \<and> url (state_request c executionId) = baseUrl c @ ''/workflow-state/'' @ executionId
   \<and> map_of (headers (state_request c executionId)) ''X-Payment'' = None"
  by (simp add: getState_def getWorkflowState_log) (simp add: getWorkflowState_def state_request_def)

subsection \<open>Results\<close>

text \<open>
  C9. Whenever \<open>run\<close> returns a result, the submission succeeded, the poll loop returned a
  state whose status is exactly \<open>completed\<close>, the result is the projection of the handle
  and that state, and so its status is \<open>completed\<close>. Hence a run whose poll loop ends in an
  error (a failed status, a timeout, a query error) returns no result.
\<close>

theorem run_result_only_from_completed:
  assumes "run c e log slug cfg = (Inr r, log')"
  shows "result_status r = ''completed''
         \<and> (\<exists>h log1 st.
              executeWorkflow c e log slug (input_of cfg) (cfg_xPayment cfg) (testMode_of cfg)
                = (Inr h, log1)
              \<and> pollForCompletion c e log1 (exec_executionId h) = (Inr st, log')
              \<and> state_status st = ''completed''
              \<and> r = \<lparr> result_executionId = exec_executionId h,
                       result_workflowId = exec_workflowId h,
                       result_status = state_status st,
                       result_output = data_output (state_data st),
                       result_ipfsCid = state_ipfsCid st,
                       result_pieceCid = exec_pieceCid h,
                       result_provider = exec_provider h,
                       result_completedTime = data_completedTime (state_data st) \<rparr>)"
proof -
  have payment: "truthy (privateKey c) \<or> truthy (cfg_xPayment cfg)"
    using assms by (auto simp: run_def split: if_splits)
  obtain x log1 where ex:
    "executeWorkflow c e log slug (input_of cfg) (cfg_xPayment cfg) (testMode_of cfg) = (x, log1)"
    by force
  from assms ex obtain h where h: "x = Inr h"
    by (cases x) (simp_all add: run_paid [OF payment])
  obtain y log2 where po: "pollForCompletion c e log1 (exec_executionId h) = (y, log2)"
    by force
  from assms ex h po obtain st where st: "y = Inr st"
    by (cases y) (simp_all add: run_paid [OF payment])
  from po [unfolded st pollForCompletion_def] have completed: "state_status st = ''completed''"
    by (rule pollLoop_Inr_completed)
  from assms have r: "r = \<lparr> result_executionId = exec_executionId h,
                       result_workflowId = exec_workflowId h,
                       result_status = state_status st,
                       result_output = data_output (state_data st),
                       result_ipfsCid = state_ipfsCid st,
                       result_pieceCid = exec_pieceCid h,
                       result_provider = exec_provider h,
                       result_completedTime = data_completedTime (state_data st) \<rparr>"
      and l: "log' = log2"
    using ex h po st by (simp_all add: run_paid [OF payment])
  from r completed have "result_status r = ''completed''" by simp
  moreover from ex h po st l completed r
  have "executeWorkflow c e log slug (input_of cfg) (cfg_xPayment cfg) (testMode_of cfg) = (Inr h, log1)
              \<and> pollForCompletion c e log1 (exec_executionId h) = (Inr st, log')
              \<and> state_status st = ''completed''
              \<and> r = \<lparr> result_executionId = exec_executionId h,
                       result_workflowId = exec_workflowId h,
                       result_status = state_status st,
                       result_output = data_output (state_data st),
                       result_ipfsCid = state_ipfsCid st,
                       result_pieceCid = exec_pieceCid h,
                       result_provider = exec_provider h,
                       result_completedTime = data_completedTime (state_data st) \<rparr>"
    by simp
  ultimately show ?thesis by (intro conjI exI) (erule conjunct1 | simp)+
qed

theorem run_result_only_from_completed_witness:
  "run demo_client
      (scripted demo_ack [demo_reply ''processing'' None None,
                          demo_reply ''completed'' (Some (JObj [(''y'', JNum 2)])) None])
      [] ''demo'' demo_cfg
     = (Inr \<lparr> result_executionId = ''e1'', result_workflowId = ''w1'', result_status = ''completed'',
              result_output = Some (JObj [(''y'', JNum 2)]), result_ipfsCid = ''cid1'',
              result_pieceCid = ''piece1'', result_provider = ''provider1'',
              result_completedTime = Some ''t1'' \<rparr>,
        [Call (submission_request demo_client ''demo'' (JObj [(''x'', JNum 1)]) (Some ''signed-payment'') True),
         Call (state_request demo_client ''e1''), Sleep 2000,
         Call (state_request demo_client ''e1'')])
   \<and> result_status
        \<lparr> result_executionId = ''e1'', result_workflowId = ''w1'', result_status = ''completed'',
          result_output = Some (JObj [(''y'', JNum 2)]), result_ipfsCid = ''cid1'',
          result_pieceCid = ''piece1'', result_provider = ''provider1'',
          result_completedTime = Some ''t1'' \<rparr> = ''completed''"
  using run_result_only_from_completed [OF demo_run] demo_run by simp

subsection \<open>Constructor defaults\<close>

text \<open>
  C10. Whenever the constructor returns a client, every falsy option has been replaced by
  its default: a \<open>pollInterval\<close> of 0 (or none) has become 2000, a \<open>maxPollAttempts\<close> of
  0 (or none) 150, an empty (or missing) \<open>baseUrl\<close> the production URL, an empty (or
  missing) \<open>privateKey\<close> null; truthy values are kept as given, so neither number is ever
  0 in a client. The constructor returns a client for every options object without a
  truthy \<open>privateKey\<close>; with a truthy one it returns a client exactly when the key library
  accepts the key, and otherwise the library's exception.
\<close>

theorem constructor_falsy_defaults:
  "(\<not> truthy (opt_privateKey opts) \<longrightarrow>
      (\<exists>c. constructor privateKeyToAccount opts = Inr c))
   \<and> (\<forall>key thrown. opt_privateKey opts = Some key \<and> key \<noteq> []
          \<and> privateKeyToAccount key = Inl thrown \<longrightarrow>
        constructor privateKeyToAccount opts = Inl (Rejection thrown))
   \<and> (\<forall>key acc. opt_privateKey opts = Some key \<and> key \<noteq> []
          \<and> privateKeyToAccount key = Inr acc \<longrightarrow>
        (\<exists>c. constructor privateKeyToAccount opts = Inr c))
   \<and> (constructor privateKeyToAccount opts = Inr c \<longrightarrow>
         (opt_pollInterval opts = None \<or> opt_pollInterval opts = Some 0 \<longrightarrow> pollInterval c = 2000)
       \<and> (opt_maxPollAttempts opts = None \<or> opt_maxPollAttempts opts = Some 0 \<longrightarrow>
            maxPollAttempts c = 150)
       \<and> (opt_baseUrl opts = None \<or> opt_baseUrl opts = Some [] \<longrightarrow>
            baseUrl c = ''https://workflow-api.openflow.sh'')
       \<and> (opt_privateKey opts = None \<or> opt_privateKey opts = Some [] \<longrightarrow>
            privateKey c = None \<and> \<not> x402Fetch c)
       \<and> (\<forall>n. opt_pollInterval opts = Some n \<and> n \<noteq> 0 \<longrightarrow> pollInterval c = n)
       \<and> (\<forall>n. opt_maxPollAttempts opts = Some n \<and> n \<noteq> 0 \<longrightarrow> maxPollAttempts c = n)
       \<and> (\<forall>u. opt_baseUrl opts = Some u \<and> u \<noteq> [] \<longrightarrow> baseUrl c = u)
       \<and> (\<forall>key. opt_privateKey opts = Some key \<and> key \<noteq> [] \<longrightarrow>
            privateKey c = Some key \<and> x402Fetch c)
       \<and> pollInterval c \<noteq> 0
       \<and> maxPollAttempts c \<noteq> 0)"
proof -
  have nz: "num_or v d \<noteq> 0" if "d \<noteq> 0" for v d
    using that by (cases v) auto
  have built: "\<exists>c. constructor privateKeyToAccount opts = Inr c"
    if "\<not> truthy (opt_privateKey opts)"
    using that by (simp add: constructor_def)
  have thrown: "constructor privateKeyToAccount opts = Inl (Rejection thrown)"
    if "opt_privateKey opts = Some key" "key \<noteq> []" "privateKeyToAccount key = Inl thrown"
    for key thrown
    using that by (simp add: constructor_def)
  have accepted: "\<exists>c. constructor privateKeyToAccount opts = Inr c"
    if "opt_privateKey opts = Some key" "key \<noteq> []" "privateKeyToAccount key = Inr acc"
    for key acc
    using that by (simp add: constructor_def)
  have fields:
       "(opt_pollInterval opts = None \<or> opt_pollInterval opts = Some 0 \<longrightarrow> pollInterval c = 2000)
       \<and> (opt_maxPollAttempts opts = None \<or> opt_maxPollAttempts opts = Some 0 \<longrightarrow>
            maxPollAttempts c = 150)
       \<and> (opt_baseUrl opts = None \<or> opt_baseUrl opts = Some [] \<longrightarrow>
            baseUrl c = ''https://workflow-api.openflow.sh'')
       \<and> (opt_privateKey opts = None \<or> opt_privateKey opts = Some [] \<longrightarrow>
            privateKey c = None \<and> \<not> x402Fetch c)
       \<and> (\<forall>n. opt_pollInterval opts = Some n \<and> n \<noteq> 0 \<longrightarrow> pollInterval c = n)
       \<and> (\<forall>n. opt_maxPollAttempts opts = Some n \<and> n \<noteq> 0 \<longrightarrow> maxPollAttempts c = n)
       \<and> (\<forall>u. opt_baseUrl opts = Some u \<and> u \<noteq> [] \<longrightarrow> baseUrl c = u)
       \<and> (\<forall>key. opt_privateKey opts = Some key \<and> key \<noteq> [] \<longrightarrow>
            privateKey c = Some key \<and> x402Fetch c)
       \<and> pollInterval c \<noteq> 0
       \<and> maxPollAttempts c \<noteq> 0"
    if c: "constructor privateKeyToAccount opts = Inr c"
  proof (cases "truthy (opt_privateKey opts)")
    case False
    with c have "c = \<lparr> privateKey = None,
              baseUrl = or_else (opt_baseUrl opts) ''https://workflow-api.openflow.sh'',
              pollInterval = num_or (opt_pollInterval opts) 2000,
              maxPollAttempts = num_or (opt_maxPollAttempts opts) 150,
              x402Fetch = False \<rparr>"
      by (simp add: constructor_def)
    with False show ?thesis by (auto simp: nz)
  next
    case True
    then obtain key where key: "opt_privateKey opts = Some key" "key \<noteq> []"
      by (cases "opt_privateKey opts") auto
    with c have "c = \<lparr> privateKey = Some key,
              baseUrl = or_else (opt_baseUrl opts) ''https://workflow-api.openflow.sh'',
              pollInterval = num_or (opt_pollInterval opts) 2000,
              maxPollAttempts = num_or (opt_maxPollAttempts opts) 150,
              x402Fetch = True \<rparr>"
      by (auto simp: constructor_def split: sum.splits)
    with key show ?thesis by (auto simp: nz)
  qed
  from built thrown accepted fields show ?thesis by blast
qed

text \<open>
  Three constructor calls: without a key and with falsy values; with the options of the
  repository's test script; with a key the library throws on.
\<close>

theorem constructor_falsy_defaults_witness:
  "constructor test_privateKeyToAccount
      \<lparr> opt_privateKey = Some [], opt_baseUrl = Some [], opt_pollInterval = Some 0,
        opt_maxPollAttempts = Some 0 \<rparr>
     = Inr \<lparr> privateKey = None, baseUrl = ''https://workflow-api.openflow.sh'',
             pollInterval = 2000, maxPollAttempts = 150, x402Fetch = False \<rparr>
   \<and> constructor test_privateKeyToAccount
      \<lparr> opt_privateKey = Some test_key, opt_baseUrl = Some ''http://localhost:3000'',
        opt_pollInterval = Some 3000, opt_maxPollAttempts = Some 100 \<rparr>
     = Inr \<lparr> privateKey = Some test_key, baseUrl = ''http://localhost:3000'',
             pollInterval = 3000, maxPollAttempts = 100, x402Fetch = True \<rparr>
   \<and> constructor test_privateKeyToAccount
      \<lparr> opt_privateKey = Some ''0xkey'', opt_baseUrl = None, opt_pollInterval = None,
        opt_maxPollAttempts = None \<rparr>
     = Inl (Rejection ''invalid private key'')"
proof -
  let ?falsy = "\<lparr> opt_privateKey = Some [], opt_baseUrl = Some [], opt_pollInterval = Some 0,
                  opt_maxPollAttempts = Some 0 \<rparr>"
  let ?script = "\<lparr> opt_privateKey = Some test_key, opt_baseUrl = Some ''http://localhost:3000'',
                   opt_pollInterval = Some 3000, opt_maxPollAttempts = Some 100 \<rparr>"
  let ?bad = "\<lparr> opt_privateKey = Some ''0xkey'', opt_baseUrl = None, opt_pollInterval = None,
                opt_maxPollAttempts = None \<rparr>"
  have key: "test_key \<noteq> []" "test_privateKeyToAccount test_key = Inr (Account test_key)"
    by (simp_all add: test_key_def test_privateKeyToAccount_def)
  have bad: "test_privateKeyToAccount ''0xkey'' = Inl ''invalid private key''"
    by (simp add: test_key_def test_privateKeyToAccount_def)
  from constructor_falsy_defaults [of ?falsy test_privateKeyToAccount]
  obtain c1 where c1: "constructor test_privateKeyToAccount ?falsy = Inr c1" by auto
  from constructor_falsy_defaults [of ?falsy test_privateKeyToAccount c1] c1
  have f1: "pollInterval c1 = 2000" "maxPollAttempts c1 = 150"
    "baseUrl c1 = ''https://workflow-api.openflow.sh''" "privateKey c1 = None" "\<not> x402Fetch c1"
    by simp_all
  from constructor_falsy_defaults [of ?script test_privateKeyToAccount] key
  obtain c2 where c2: "constructor test_privateKeyToAccount ?script = Inr c2" by auto
  from constructor_falsy_defaults [of ?script test_privateKeyToAccount c2] c2 key(1)
  have f2: "pollInterval c2 = 3000" "maxPollAttempts c2 = 100"
    "baseUrl c2 = ''http://localhost:3000''" "privateKey c2 = Some test_key" "x402Fetch c2"
    by simp_all
  from constructor_falsy_defaults [of ?bad test_privateKeyToAccount] bad
  have c3: "constructor test_privateKeyToAccount ?bad = Inl (Rejection ''invalid private key'')"
    by simp
  from f1 have "c1 = \<lparr> privateKey = None, baseUrl = ''https://workflow-api.openflow.sh'',
             pollInterval = 2000, maxPollAttempts = 150, x402Fetch = False \<rparr>"
    by (cases c1) simp
  moreover from f2 have "c2 = \<lparr> privateKey = Some test_key, baseUrl = ''http://localhost:3000'',
             pollInterval = 3000, maxPollAttempts = 100, x402Fetch = True \<rparr>"
    by (cases c2) simp
  ultimately show ?thesis using c1 c2 c3 by simp
qed

end
